theory Spec2Isabelle
  imports Main "HOL-Library.Sublist"
begin

section \<open>Legal Document PDF Converter: a model of \<^verbatim>\<open>pdf_converter.py\<close>\<close>

text \<open>
  The program sequences calls to PyPDF2, Pillow, img2pdf and pikepdf and maps their
  exceptions to a boolean result and a process exit code. The model keeps that shape:
  every method returns its boolean together with the file system it leaves behind and the
  lines it printed; every call into a library is a field of a record \<open>lib\<close> that may
  return an exception; \<^verbatim>\<open>sys.exit\<close> in a command is the exit code the command returns.
\<close>

subsection \<open>Exceptions and console output\<close>

type_synonym path = string
type_synonym bytes = string

datatype exn =
    KeyError string
  | OSError string
  | ZeroDivisionError
  | LibError string

text \<open>
  An exception carries the text that \<^verbatim>\<open>str(e)\<close> gives. For a \<^verbatim>\<open>KeyError\<close> that text is the
  \<^verbatim>\<open>repr\<close> of the missing key; the code that raises it takes the rendering from the
  libraries (\<open>py_repr\<close> below), so that nothing is said here about quotes and escapes.
\<close>

fun str_exn :: "exn \<Rightarrow> string" where
  "str_exn (KeyError m) = m"
| "str_exn (OSError m) = m"
| "str_exn ZeroDivisionError = ''division by zero''"
| "str_exn (LibError m) = m"

text \<open>
  \<^verbatim>\<open>click.echo(s)\<close> is \<open>Out s\<close>, \<^verbatim>\<open>click.echo(s, err=True)\<close> is \<open>Err s\<close>, and \<open>Usage\<close> is
  the message of a click usage error.
\<close>

datatype event =
    Out string
  | Err string
  | Usage string

fun is_err :: "event \<Rightarrow> bool" where
  "is_err (Err s) = True"
| "is_err e = False"

definition errors :: "event list \<Rightarrow> event list" where
  "errors log = filter is_err log"

text \<open>\<^verbatim>\<open>str(n)\<close> for a natural number, as the f-strings print \<^verbatim>\<open>len(...)\<close>.\<close>

fun str_nat :: "nat \<Rightarrow> string" where
  "str_nat n =
     (if n < 10 then [char_of (48 + n)]
      else str_nat (n div 10) @ [char_of (48 + n mod 10)])"

subsection \<open>The file system\<close>

text \<open>
  A file system is a finite table from paths to files and directories, and a list of
  paths on which the operating system refuses to create, write or delete (permissions,
  a read-only medium): on those, the call raises \<^verbatim>\<open>OSError\<close>.
\<close>

datatype node = File bytes | Dir

record fs =
  entries :: "(path \<times> node) list"
  denied :: "path list"

definition exists :: "fs \<Rightarrow> path \<Rightarrow> bool" where
  "exists f p = (map_of (entries f) p \<noteq> None)"

definition put :: "fs \<Rightarrow> path \<Rightarrow> node \<Rightarrow> fs" where
  "put f p n = f\<lparr>entries := (p, n) # filter (\<lambda>(q, _). q \<noteq> p) (entries f)\<rparr>"

definition drop_path :: "fs \<Rightarrow> path \<Rightarrow> fs" where
  "drop_path f p = f\<lparr>entries := filter (\<lambda>(q, _). q \<noteq> p) (entries f)\<rparr>"

definition read_file :: "fs \<Rightarrow> path \<Rightarrow> exn + bytes" where
  "read_file f p =
     (case map_of (entries f) p of
        Some (File b) \<Rightarrow> Inr b
      | Some Dir \<Rightarrow> Inl (OSError (''Is a directory: '' @ p))
      | None \<Rightarrow> Inl (OSError (''No such file or directory: '' @ p)))"

text \<open>
  The directory part of a path, and whether it is there: a path without a slash lies in
  the current directory, a path whose only slash is the first lies in the root.
\<close>

definition dirname :: "path \<Rightarrow> path" where
  "dirname p = rev (drop 1 (dropWhile (\<lambda>c. c \<noteq> CHR ''/'') (rev p)))"

definition parent_exists :: "fs \<Rightarrow> path \<Rightarrow> bool" where
  "parent_exists f p =
     (if CHR ''/'' \<in> set p \<and> dirname p \<noteq> []
      then map_of (entries f) (dirname p) = Some Dir
      else True)"

text \<open>
  \<^verbatim>\<open>open(p, "wb")\<close>: creates the file or truncates it; it fails where the directory of
  \<open>p\<close> does not exist.
\<close>

definition open_wb :: "fs \<Rightarrow> path \<Rightarrow> exn + fs" where
  "open_wb f p =
     (if p \<in> set (denied f) then Inl (OSError (''Permission denied: '' @ p))
      else if map_of (entries f) p = Some Dir then Inl (OSError (''Is a directory: '' @ p))
      else if parent_exists f p then Inr (put f p (File []))
      else Inl (OSError (''No such file or directory: '' @ p)))"

definition getsize :: "fs \<Rightarrow> path \<Rightarrow> exn + nat" where
  "getsize f p =
     (case map_of (entries f) p of
        Some (File b) \<Rightarrow> Inr (length b)
      | Some Dir \<Rightarrow> Inr 0
      | None \<Rightarrow> Inl (OSError (''No such file or directory: '' @ p)))"

text \<open>\<^verbatim>\<open>os.path.join(d, name)\<close> for a relative \<open>name\<close> and a \<open>d\<close> without trailing slash.\<close>

definition join :: "path \<Rightarrow> path \<Rightarrow> path" where
  "join d name = d @ ''/'' @ name"

definition has_children :: "fs \<Rightarrow> path \<Rightarrow> bool" where
  "has_children f d = list_ex (\<lambda>(q, _). prefix (d @ ''/'') q) (entries f)"

definition os_remove :: "fs \<Rightarrow> path \<Rightarrow> exn + fs" where
  "os_remove f p =
     (if p \<in> set (denied f) then Inl (OSError (''Permission denied: '' @ p))
      else case map_of (entries f) p of
        Some (File b) \<Rightarrow> Inr (drop_path f p)
      | Some Dir \<Rightarrow> Inl (OSError (''Is a directory: '' @ p))
      | None \<Rightarrow> Inl (OSError (''No such file or directory: '' @ p)))"

definition os_rmdir :: "fs \<Rightarrow> path \<Rightarrow> exn + fs" where
  "os_rmdir f d =
     (if d \<in> set (denied f) then Inl (OSError (''Permission denied: '' @ d))
      else case map_of (entries f) d of
        Some Dir \<Rightarrow>
          (if has_children f d then Inl (OSError (''Directory not empty: '' @ d))
           else Inr (drop_path f d))
      | Some (File b) \<Rightarrow> Inl (OSError (''Not a directory: '' @ d))
      | None \<Rightarrow> Inl (OSError (''No such file or directory: '' @ d)))"

text \<open>
  What a library writer does to its output file: it writes all the bytes, or it raises,
  either before the file is opened (\<open>None\<close>) or after, leaving the bytes written so far.
\<close>

datatype wr = WriteOk bytes | WriteFailed "bytes option" exn

definition write_out :: "fs \<Rightarrow> path \<Rightarrow> wr \<Rightarrow> (exn option \<times> fs)" where
  "write_out f p w =
     (case w of
        WriteFailed None e \<Rightarrow> (Some e, f)
      | WriteFailed (Some b) e \<Rightarrow>
          (case open_wb f p of Inl e' \<Rightarrow> (Some e', f) | Inr f' \<Rightarrow> (Some e, put f' p (File b)))
      | WriteOk b \<Rightarrow>
          (case open_wb f p of Inl e' \<Rightarrow> (Some e', f) | Inr f' \<Rightarrow> (None, put f' p (File b))))"

subsection \<open>PDF documents as pikepdf shows them\<close>

text \<open>
  A document is its list of pages and a store of indirect objects. A page may have a
  resource dictionary, which may have an external-object table: names, in dictionary
  order, each referring to an object of the store. Two names, on one page or on two,
  may refer to the same object.
\<close>

datatype pval = PName string | PRef nat | PVal string

type_synonym pdict = "(string \<times> pval) list"

datatype pobject = PNull | PDictionary pdict | PStream pdict bytes

record res =
  xobject :: "(string \<times> nat) list option"
  res_entries :: pdict

record page =
  resources :: "res option"
  page_entries :: pdict

type_synonym store = "(nat \<times> pobject) list"

record pdf =
  pages :: "page list"
  objects :: store
  trailer :: pdict

definition deref :: "store \<Rightarrow> nat \<Rightarrow> pobject" where
  "deref st r = (case map_of st r of Some ob \<Rightarrow> ob | None \<Rightarrow> PNull)"

definition assign :: "store \<Rightarrow> nat \<Rightarrow> pobject \<Rightarrow> store" where
  "assign st r ob = (r, ob) # filter (\<lambda>(q, _). q \<noteq> r) st"

text \<open>
  \<^verbatim>\<open>obj.write(data, filter=f)\<close> replaces the stream's data, sets \<^verbatim>\<open>/Filter\<close> and, as no
  decode parameters are given, removes \<^verbatim>\<open>/DecodeParms\<close>; the other entries stay.
\<close>

definition stream_write :: "pdict \<Rightarrow> bytes \<Rightarrow> string \<Rightarrow> pobject" where
  "stream_write d dat f =
     PStream ((''/Filter'', PName f) #
              filter (\<lambda>(k, _). k \<noteq> ''/Filter'' \<and> k \<noteq> ''/DecodeParms'') d) dat"

subsection \<open>The libraries\<close>

text \<open>
  The calls the program makes into PyPDF2 (\<open>merger_\<close>), Pillow (\<open>image_\<close>), img2pdf,
  pikepdf and \<^verbatim>\<open>tempfile\<close>, and what it takes from Python itself: the \<^verbatim>\<open>repr\<close> of a
  string, the division of two integers (a float), the product of a float and an integer,
  and the format \<^verbatim>\<open>.2f\<close>. The program does not depend on what they compute, only on
  whether they return or raise, so they are parameters: \<open>'m\<close> is the state of a
  \<^verbatim>\<open>PdfMerger\<close>, \<open>'i\<close> a Pillow image, \<open>'r\<close> a float.
\<close>

datatype object_stream_mode = Disable | Preserve | Generate

record ('m, 'i, 'r) lib =
  merger_new :: 'm
  merger_append :: "'m \<Rightarrow> bytes \<Rightarrow> exn + 'm"
  merger_write :: "'m \<Rightarrow> wr"
  image_open :: "bytes \<Rightarrow> exn + 'i"
  image_mode :: "'i \<Rightarrow> string"
  image_size :: "'i \<Rightarrow> nat \<times> nat"
  image_new :: "string \<Rightarrow> nat \<times> nat \<Rightarrow> nat \<times> nat \<times> nat \<Rightarrow> exn + 'i"
  image_convert :: "'i \<Rightarrow> string \<Rightarrow> exn + 'i"
  image_split :: "'i \<Rightarrow> exn + 'i list"
  image_paste :: "'i \<Rightarrow> 'i \<Rightarrow> 'i option \<Rightarrow> exn + 'i"
  image_save_jpeg :: "'i \<Rightarrow> nat \<Rightarrow> bool \<Rightarrow> (nat \<times> nat) option \<Rightarrow> exn + bytes"
  img2pdf_convert :: "bytes list \<Rightarrow> exn + bytes"
  pikepdf_open :: "bytes \<Rightarrow> exn + pdf"
  stream_read_bytes :: "pdict \<Rightarrow> bytes \<Rightarrow> exn + bytes"
  pikepdf_save :: "pdf \<Rightarrow> bool \<Rightarrow> object_stream_mode \<Rightarrow> wr"
  mkdtemp :: "fs \<Rightarrow> exn + path"
  py_repr :: "string \<Rightarrow> string"
  float_div :: "int \<Rightarrow> int \<Rightarrow> 'r"
  float_mul :: "'r \<Rightarrow> int \<Rightarrow> 'r"
  format_2f :: "'r \<Rightarrow> string"

subsection \<open>\<^verbatim>\<open>PDFConverter.__init__\<close>\<close>

record settings =
  dpi :: nat
  quality :: nat
  optimize :: bool

record PDFConverter =
  self_quality :: string
  quality_settings :: "(string \<times> settings) list"

definition PDFConverter_init :: "string \<Rightarrow> PDFConverter" where
  "PDFConverter_init q =
     \<lparr>self_quality = q,
      quality_settings =
        [(''high'', \<lparr>dpi = 300, quality = 95, optimize = True\<rparr>),
         (''medium'', \<lparr>dpi = 200, quality = 85, optimize = True\<rparr>),
         (''low'', \<lparr>dpi = 150, quality = 75, optimize = True\<rparr>)]\<rparr>"

text \<open>\<^verbatim>\<open>PDFConverter()\<close>: the parameter's default is \<^verbatim>\<open>'high'\<close>.\<close>

definition PDFConverter_default :: PDFConverter where
  "PDFConverter_default = PDFConverter_init ''high''"

text \<open>
  \<^verbatim>\<open>self.quality_settings[self.quality]\<close>: the settings, or \<open>Inl k\<close> when the lookup raises
  \<^verbatim>\<open>KeyError(k)\<close>.
\<close>

definition current_settings :: "PDFConverter \<Rightarrow> string + settings" where
  "current_settings self =
     (case map_of (quality_settings self) (self_quality self) of
        Some s \<Rightarrow> Inr s
      | None \<Rightarrow> Inl (self_quality self))"

subsection \<open>\<^verbatim>\<open>PDFConverter.merge_pdfs\<close>\<close>

text \<open>
  The loop either runs to its end (\<open>Next\<close>), returns from the method (\<open>Ret\<close>) or raises
  (\<open>Exc\<close>). \<^verbatim>\<open>merger.append(path)\<close> reads the file and hands it to the library.
\<close>

datatype 'a ctl = Next 'a | Ret bool | Exc exn

definition append_file :: "('m, 'i, 'r) lib \<Rightarrow> fs \<Rightarrow> 'm \<Rightarrow> path \<Rightarrow> exn + 'm" where
  "append_file L f m p =
     (case read_file f p of Inl e \<Rightarrow> Inl e | Inr b \<Rightarrow> merger_append L m b)"

fun merge_loop ::
  "('m, 'i, 'r) lib \<Rightarrow> fs \<Rightarrow> path list \<Rightarrow> 'm \<Rightarrow> event list \<Rightarrow> 'm ctl \<times> event list" where
  "merge_loop L f [] m log = (Next m, log)"
| "merge_loop L f (pdf_file # rest) m log =
     (if \<not> exists f pdf_file
      then (Ret False, log @ [Err (''Error: File not found: '' @ pdf_file)])
      else case append_file L f m pdf_file of
             Inl e \<Rightarrow> (Exc e, log @ [Out (''Adding: '' @ pdf_file)])
           | Inr m' \<Rightarrow> merge_loop L f rest m' (log @ [Out (''Adding: '' @ pdf_file)]))"

definition merge_pdfs ::
  "PDFConverter \<Rightarrow> ('m, 'i, 'r) lib \<Rightarrow> fs \<Rightarrow> path list \<Rightarrow> path \<Rightarrow> bool \<times> fs \<times> event list" where
  "merge_pdfs self L f input_files output_file =
     (case merge_loop L f input_files (merger_new L) [] of
        (Ret b, log) \<Rightarrow> (b, f, log)
      | (Exc e, log) \<Rightarrow> (False, f, log @ [Err (''Error merging PDFs: '' @ str_exn e)])
      | (Next m, log) \<Rightarrow>
          (case write_out f output_file (merger_write L m) of
             (Some e, f') \<Rightarrow> (False, f', log @ [Err (''Error merging PDFs: '' @ str_exn e)])
           | (None, f') \<Rightarrow>
               (True, f',
                log @ [Out (''Successfully merged '' @ str_nat (length input_files) @
                            '' PDFs into '' @ output_file)])))"

subsection \<open>Flattening to RGB\<close>

text \<open>
  Lines 101-107 and 171-177 of the source are the same statements; they are one
  function here. \<^verbatim>\<open>rgb_img.paste(img, mask=...)\<close> changes \<open>rgb_img\<close>, which is the
  image \<open>image_paste\<close> returns.
\<close>

definition paste_on :: "('m, 'i, 'r) lib \<Rightarrow> 'i \<Rightarrow> 'i \<Rightarrow> exn + 'i" where
  "paste_on L rgb_img img =
     (if image_mode L img \<in> {''RGBA'', ''LA''} then
        (case image_split L img of
           Inl e \<Rightarrow> Inl e
         | Inr bands \<Rightarrow>
             image_paste L rgb_img img (if length bands > 3 then Some (last bands) else None))
      else Inr rgb_img)"

definition to_rgb :: "('m, 'i, 'r) lib \<Rightarrow> 'i \<Rightarrow> exn + 'i" where
  "to_rgb L img =
     (if image_mode L img \<in> {''RGBA'', ''LA'', ''P''} then
        (case image_new L ''RGB'' (image_size L img) (255, 255, 255) of
           Inl e \<Rightarrow> Inl e
         | Inr rgb_img \<Rightarrow>
             (if image_mode L img = ''P'' then
                (case image_convert L img ''RGBA'' of
                   Inl e \<Rightarrow> Inl e
                 | Inr img' \<Rightarrow> paste_on L rgb_img img')
              else paste_on L rgb_img img))
      else Inr img)"

subsection \<open>\<^verbatim>\<open>PDFConverter.image_to_pdf\<close>\<close>

definition process_image ::
  "('m, 'i, 'r) lib \<Rightarrow> settings \<Rightarrow> fs \<Rightarrow> path \<Rightarrow> exn + bytes" where
  "process_image L s f img_file =
     (case read_file f img_file of
        Inl e \<Rightarrow> Inl e
      | Inr b \<Rightarrow>
          (case image_open L b of
             Inl e \<Rightarrow> Inl e
           | Inr img \<Rightarrow>
               (case to_rgb L img of
                  Inl e \<Rightarrow> Inl e
                | Inr img' \<Rightarrow>
                    image_save_jpeg L img' (quality s) (optimize s) (Some (dpi s, dpi s)))))"

fun process_images ::
  "('m, 'i, 'r) lib \<Rightarrow> settings \<Rightarrow> fs \<Rightarrow> path list \<Rightarrow> bytes list \<Rightarrow> event list \<Rightarrow>
   (exn + bytes list) \<times> event list" where
  "process_images L s f [] processed log = (Inr processed, log)"
| "process_images L s f (img_file # rest) processed log =
     (case process_image L s f img_file of
        Inl e \<Rightarrow> (Inl e, log @ [Out (''Processing: '' @ img_file)])
      | Inr b \<Rightarrow>
          process_images L s f rest (processed @ [b]) (log @ [Out (''Processing: '' @ img_file)]))"

definition convert_failed :: "fs \<Rightarrow> event list \<Rightarrow> exn \<Rightarrow> bool \<times> fs \<times> event list" where
  "convert_failed f log e =
     (False, f, log @ [Err (''Error converting images to PDF: '' @ str_exn e)])"

definition image_to_pdf ::
  "PDFConverter \<Rightarrow> ('m, 'i, 'r) lib \<Rightarrow> fs \<Rightarrow> path list \<Rightarrow> path \<Rightarrow> bool \<times> fs \<times> event list" where
  "image_to_pdf self L f image_files output_file =
     (case find (\<lambda>img_file. \<not> exists f img_file) image_files of
        Some img_file \<Rightarrow> (False, f, [Err (''Error: File not found: '' @ img_file)])
      | None \<Rightarrow>
          (case current_settings self of
             Inl k \<Rightarrow> convert_failed f [] (KeyError (py_repr L k))
           | Inr s \<Rightarrow>
               (case process_images L s f image_files [] [] of
                  (Inl e, log) \<Rightarrow> convert_failed f log e
                | (Inr processed, log) \<Rightarrow>
                    (case open_wb f output_file of
                       Inl e \<Rightarrow> convert_failed f log e
                     | Inr f' \<Rightarrow>
                         (case img2pdf_convert L processed of
                            Inl e \<Rightarrow> convert_failed f' log e
                          | Inr b \<Rightarrow>
                              (True, put f' output_file (File b),
                               log @ [Out (''Successfully converted '' @
                                           str_nat (length image_files) @ '' images to '' @
                                           output_file)]))))))"

subsection \<open>\<^verbatim>\<open>PDFConverter.optimize_pdf\<close>\<close>

definition is_image :: "pdict \<Rightarrow> bool" where
  "is_image d = (map_of d ''/Subtype'' = Some (PName ''/Image''))"

fun dict_of :: "pobject \<Rightarrow> pdict" where
  "dict_of (PStream d dat) = d"
| "dict_of (PDictionary d) = d"
| "dict_of PNull = []"

text \<open>
  The body of the inner \<^verbatim>\<open>try\<close> (lines 164-185): \<open>Inr None\<close> when the image is too
  small to be worth it, \<open>Inr (Some ob)\<close> with the object as \<^verbatim>\<open>obj.write\<close> leaves it, \<open>Inl e\<close>
  when a statement raises. \<^verbatim>\<open>read_bytes\<close> raises on an object that is no stream.
\<close>

definition recompress :: "('m, 'i, 'r) lib \<Rightarrow> settings \<Rightarrow> pobject \<Rightarrow> exn + pobject option" where
  "recompress L s ob =
     (case ob of
        PStream d dat \<Rightarrow>
          (case stream_read_bytes L d dat of
             Inl e \<Rightarrow> Inl e
           | Inr raw_image \<Rightarrow>
               (if length raw_image > 1024 then
                  (case image_open L raw_image of
                     Inl e \<Rightarrow> Inl e
                   | Inr img \<Rightarrow>
                       (case to_rgb L img of
                          Inl e \<Rightarrow> Inl e
                        | Inr img' \<Rightarrow>
                            (case image_save_jpeg L img' (quality s) (optimize s) None of
                               Inl e \<Rightarrow> Inl e
                             | Inr jpeg \<Rightarrow> Inr (Some (stream_write d jpeg ''/DCTDecode'')))))
                else Inr None))
      | PDictionary d \<Rightarrow> Inl (LibError ''object is not a stream'')
      | PNull \<Rightarrow> Inl (LibError ''object is not a stream''))"

definition warning :: "string \<Rightarrow> exn \<Rightarrow> event" where
  "warning name e = Err (''Warning: Could not optimize image '' @ name @ '': '' @ str_exn e)"

text \<open>
  One entry of a page's external-object table (lines 158-190). A name whose reference
  leads to no object is not among the keys pikepdf lists; here its object is \<open>PNull\<close>,
  which has no \<^verbatim>\<open>/Subtype\<close>, and the entry is passed over like any object that is no image.
\<close>

definition optimize_xobject ::
  "('m, 'i, 'r) lib \<Rightarrow> settings \<Rightarrow> string \<times> nat \<Rightarrow> store \<Rightarrow> event list \<Rightarrow>
   store \<times> event list" where
  "optimize_xobject L s entry st log =
     (case entry of (name, r) \<Rightarrow>
        (if is_image (dict_of (deref st r)) then
           (case recompress L s (deref st r) of
              Inl e \<Rightarrow> (st, log @ [warning name e])
            | Inr None \<Rightarrow> (st, log)
            | Inr (Some ob) \<Rightarrow> (assign st r ob, log))
         else (st, log)))"

fun optimize_xobjects ::
  "('m, 'i, 'r) lib \<Rightarrow> settings \<Rightarrow> (string \<times> nat) list \<Rightarrow> store \<Rightarrow> event list \<Rightarrow>
   store \<times> event list" where
  "optimize_xobjects L s [] st log = (st, log)"
| "optimize_xobjects L s (entry # rest) st log =
     (case optimize_xobject L s entry st log of
        (st', log') \<Rightarrow> optimize_xobjects L s rest st' log')"

text \<open>\<^verbatim>\<open>'/Resources' in page and '/XObject' in page['/Resources']\<close>\<close>

definition page_xobjects :: "page \<Rightarrow> (string \<times> nat) list" where
  "page_xobjects pg =
     (case resources pg of
        None \<Rightarrow> []
      | Some r \<Rightarrow> (case xobject r of None \<Rightarrow> [] | Some xs \<Rightarrow> xs))"

fun optimize_pages ::
  "('m, 'i, 'r) lib \<Rightarrow> settings \<Rightarrow> page list \<Rightarrow> store \<Rightarrow> event list \<Rightarrow>
   store \<times> event list" where
  "optimize_pages L s [] st log = (st, log)"
| "optimize_pages L s (pg # rest) st log =
     (case optimize_xobjects L s (page_xobjects pg) st log of
        (st', log') \<Rightarrow> optimize_pages L s rest st' log')"

text \<open>The document as it stands when \<^verbatim>\<open>pdf.save\<close> is called (line 193).\<close>

definition optimize_document ::
  "('m, 'i, 'r) lib \<Rightarrow> settings \<Rightarrow> pdf \<Rightarrow> event list \<Rightarrow> pdf \<times> event list" where
  "optimize_document L s doc log =
     (case optimize_pages L s (pages doc) (objects doc) log of
        (st, log') \<Rightarrow> (doc\<lparr>objects := st\<rparr>, log'))"

definition optimize_failed :: "fs \<Rightarrow> event list \<Rightarrow> exn \<Rightarrow> bool \<times> fs \<times> event list" where
  "optimize_failed f log e = (False, f, log @ [Err (''Error optimizing PDF: '' @ str_exn e)])"

text \<open>
  \<^verbatim>\<open>pdf.save(output_file, compress_streams=True, object_stream_mode=...generate)\<close> on a
  document opened from \<open>input_file\<close> (line 193): pikepdf refuses to write over the file
  the document was opened from.
\<close>

definition save_pdf ::
  "('m, 'i, 'r) lib \<Rightarrow> fs \<Rightarrow> pdf \<Rightarrow> path \<Rightarrow> path \<Rightarrow> exn option \<times> fs" where
  "save_pdf L f doc input_file output_file =
     (if output_file = input_file
      then (Some (LibError ''Cannot overwrite input file''), f)
      else write_out f output_file (pikepdf_save L doc True Generate))"

text \<open>
  Lines 196-205. The two sizes are integers, and so is their difference; the quotients
  and the product are floats, printed with two decimals. The division by
  \<open>original_size\<close> raises when it is zero.
\<close>

definition reduction :: "('m, 'i, 'r) lib \<Rightarrow> nat \<Rightarrow> nat \<Rightarrow> 'r" where
  "reduction L original_size optimized_size =
     float_mul L (float_div L (int original_size - int optimized_size) (int original_size)) 100"

definition report_sizes ::
  "('m, 'i, 'r) lib \<Rightarrow> fs \<Rightarrow> path \<Rightarrow> path \<Rightarrow> event list \<Rightarrow> bool \<times> fs \<times> event list" where
  "report_sizes L f input_file output_file log =
     (case getsize f input_file of
        Inl e \<Rightarrow> optimize_failed f log e
      | Inr original_size \<Rightarrow>
          (case getsize f output_file of
             Inl e \<Rightarrow> optimize_failed f log e
           | Inr optimized_size \<Rightarrow>
               (if original_size = 0 then optimize_failed f log ZeroDivisionError
                else (True, f,
                      log @
                      [Out ''Successfully optimized PDF:'',
                       Out (''  Original size: '' @
                            format_2f L (float_div L (int original_size) 1024) @ '' KB''),
                       Out (''  Optimized size: '' @
                            format_2f L (float_div L (int optimized_size) 1024) @ '' KB''),
                       Out (''  Reduction: '' @
                            format_2f L (reduction L original_size optimized_size) @ ''%'')]))))"

definition optimize_pdf ::
  "PDFConverter \<Rightarrow> ('m, 'i, 'r) lib \<Rightarrow> fs \<Rightarrow> path \<Rightarrow> path \<Rightarrow> bool \<times> fs \<times> event list" where
  "optimize_pdf self L f input_file output_file =
     (if \<not> exists f input_file
      then (False, f, [Err (''Error: File not found: '' @ input_file)])
      else
        (case current_settings self of
           Inl k \<Rightarrow>
             optimize_failed f [Out (''Optimizing: '' @ input_file)] (KeyError (py_repr L k))
         | Inr s \<Rightarrow>
             (case read_file f input_file of
                Inl e \<Rightarrow> optimize_failed f [Out (''Optimizing: '' @ input_file)] e
              | Inr b \<Rightarrow>
                  (case pikepdf_open L b of
                     Inl e \<Rightarrow> optimize_failed f [Out (''Optimizing: '' @ input_file)] e
                   | Inr doc \<Rightarrow>
                       (case optimize_document L s doc [Out (''Optimizing: '' @ input_file)] of
                          (doc', log) \<Rightarrow>
                            (case save_pdf L f doc' input_file output_file of
                               (Some e, f') \<Rightarrow> optimize_failed f' log e
                             | (None, f') \<Rightarrow> report_sizes L f' input_file output_file log))))))"

subsection \<open>The \<^verbatim>\<open>batch\<close> command\<close>

text \<open>The \<^verbatim>\<open>finally\<close> block (lines 326-339): an \<^verbatim>\<open>OSError\<close> of a deletion is passed over.\<close>

fun remove_temp_files :: "fs \<Rightarrow> path list \<Rightarrow> fs" where
  "remove_temp_files f [] = f"
| "remove_temp_files f (temp_file # rest) =
     (if exists f temp_file then
        (case os_remove f temp_file of
           Inl e \<Rightarrow> remove_temp_files f rest
         | Inr f' \<Rightarrow> remove_temp_files f' rest)
      else remove_temp_files f rest)"

definition cleanup :: "fs \<Rightarrow> path list \<Rightarrow> path \<Rightarrow> fs" where
  "cleanup f temp_files temp_dir =
     (case os_rmdir (remove_temp_files f temp_files) temp_dir of
        Inl e \<Rightarrow> remove_temp_files f temp_files
      | Inr f' \<Rightarrow> f')"

text \<open>
  The \<^verbatim>\<open>try\<close> block (lines 302-324). It always ends in \<^verbatim>\<open>sys.exit\<close>; the result is the exit
  code, the file system, the output and \<open>temp_files\<close> as the \<^verbatim>\<open>finally\<close> block finds it.
\<close>

definition batch_try ::
  "PDFConverter \<Rightarrow> ('m, 'i, 'r) lib \<Rightarrow> fs \<Rightarrow> path \<Rightarrow> path list \<Rightarrow> path list \<Rightarrow> path \<Rightarrow>
   nat \<times> fs \<times> event list \<times> path list" where
  "batch_try converter L f temp_dir image_files pdf_files output =
     (case (if image_files = [] then (True, f, [])
            else image_to_pdf converter L f image_files (join temp_dir ''temp_images.pdf'')) of
        (ok1, f1, log1) \<Rightarrow>
          (if \<not> ok1 then (1, f1, log1, [])
           else
             (case merge_pdfs converter L f1
                     ((if image_files = [] then [] else [join temp_dir ''temp_images.pdf''])
                      @ pdf_files)
                     (join temp_dir ''temp_merged.pdf'') of
                (ok2, f2, log2) \<Rightarrow>
                  (if \<not> ok2
                   then (1, f2, log1 @ log2,
                         (if image_files = [] then [] else [join temp_dir ''temp_images.pdf'']))
                   else
                     (case optimize_pdf converter L f2 (join temp_dir ''temp_merged.pdf'') output of
                        (ok3, f3, log3) \<Rightarrow>
                          ((if ok3 then 0 else 1), f3,
                           log1 @ log2 @ log3 @
                           (if ok3 then [Out (CHR 0x0A # ''Batch processing complete: '' @ output)]
                            else []),
                           (if image_files = [] then [] else [join temp_dir ''temp_images.pdf''])
                           @ [join temp_dir ''temp_merged.pdf'']))))))"

text \<open>
  The body of \<^verbatim>\<open>batch\<close> (lines 293-339). \<^verbatim>\<open>tempfile.mkdtemp()\<close> makes the directory it
  names; if it raises, nothing catches the exception and the interpreter exits with 1.
\<close>

definition batch ::
  "('m, 'i, 'r) lib \<Rightarrow> fs \<Rightarrow> path list \<Rightarrow> path list \<Rightarrow> path \<Rightarrow> string \<Rightarrow> nat \<times> fs \<times> event list" where
  "batch L f image_files pdf_files output quality_label =
     (case mkdtemp L f of
        Inl e \<Rightarrow> (1, f, [Err (str_exn e)])
      | Inr temp_dir \<Rightarrow>
          (if image_files = [] \<and> pdf_files = []
           then (1, put f temp_dir Dir,
                 [Err ''Error: At least one image file or PDF file must be provided''])
           else
             (case batch_try (PDFConverter_init quality_label) L (put f temp_dir Dir) temp_dir
                     image_files pdf_files output of
                (code, f', log, temp_files) \<Rightarrow> (code, cleanup f' temp_files temp_dir, log))))"

subsection \<open>The command line\<close>

text \<open>
  What click does before it calls a command: an argument of type
  \<^verbatim>\<open>click.Path(exists=True)\<close> must name something that exists, a required argument or
  option must be given, and an option of type \<^verbatim>\<open>click.Choice\<close> must be one of the choices
  (its default when it is not given). Otherwise click prints a usage error and exits with
  code 2, and the command is never called.
\<close>

definition click_choice :: "string list \<Rightarrow> string \<Rightarrow> string option \<Rightarrow> string + string" where
  "click_choice choices dflt given =
     (case given of
        None \<Rightarrow> Inr dflt
      | Some v \<Rightarrow> if v \<in> set choices then Inr v else Inl (''Invalid value: '' @ v))"

definition click_paths :: "fs \<Rightarrow> path list \<Rightarrow> string + path list" where
  "click_paths f ps =
     (case find (\<lambda>p. \<not> exists f p) ps of
        Some p \<Rightarrow> Inl (''Invalid value: Path does not exist: '' @ p)
      | None \<Rightarrow> Inr ps)"

definition click_required :: "'a option \<Rightarrow> string + 'a" where
  "click_required given = (case given of None \<Rightarrow> Inl ''Missing option'' | Some v \<Rightarrow> Inr v)"

definition usage_error :: "fs \<Rightarrow> string \<Rightarrow> nat \<times> fs \<times> event list" where
  "usage_error f msg = (2, f, [Usage msg])"

definition exit_with :: "bool \<times> fs \<times> event list \<Rightarrow> nat \<times> fs \<times> event list" where
  "exit_with r = (case r of (success, f, log) \<Rightarrow> ((if success then 0 else 1), f, log))"

definition quality_choices :: "string list" where
  "quality_choices = [''high'', ''medium'', ''low'']"

definition cli_merge ::
  "('m, 'i, 'r) lib \<Rightarrow> fs \<Rightarrow> path list \<Rightarrow> path option \<Rightarrow> nat \<times> fs \<times> event list" where
  "cli_merge L f input_files output =
     (if input_files = [] then usage_error f ''Missing argument''
      else case click_paths f input_files of
        Inl msg \<Rightarrow> usage_error f msg
      | Inr files \<Rightarrow>
          (case click_required output of
             Inl msg \<Rightarrow> usage_error f msg
           | Inr out \<Rightarrow> exit_with (merge_pdfs PDFConverter_default L f files out)))"

definition cli_convert ::
  "('m, 'i, 'r) lib \<Rightarrow> fs \<Rightarrow> path list \<Rightarrow> path option \<Rightarrow> string option \<Rightarrow>
   nat \<times> fs \<times> event list" where
  "cli_convert L f image_files output q =
     (if image_files = [] then usage_error f ''Missing argument''
      else case click_paths f image_files of
        Inl msg \<Rightarrow> usage_error f msg
      | Inr files \<Rightarrow>
          (case click_required output of
             Inl msg \<Rightarrow> usage_error f msg
           | Inr out \<Rightarrow>
               (case click_choice quality_choices ''high'' q of
                  Inl msg \<Rightarrow> usage_error f msg
                | Inr quality_label \<Rightarrow>
                    exit_with (image_to_pdf (PDFConverter_init quality_label) L f files out))))"

definition cli_optimize ::
  "('m, 'i, 'r) lib \<Rightarrow> fs \<Rightarrow> path option \<Rightarrow> path option \<Rightarrow> string option \<Rightarrow>
   nat \<times> fs \<times> event list" where
  "cli_optimize L f input_file output q =
     (case input_file of
        None \<Rightarrow> usage_error f ''Missing argument''
      | Some inp \<Rightarrow>
          (case click_paths f [inp] of
             Inl msg \<Rightarrow> usage_error f msg
           | Inr files \<Rightarrow>
               (case click_required output of
                  Inl msg \<Rightarrow> usage_error f msg
                | Inr out \<Rightarrow>
                    (case click_choice quality_choices ''high'' q of
                       Inl msg \<Rightarrow> usage_error f msg
                     | Inr quality_label \<Rightarrow>
                         exit_with (optimize_pdf (PDFConverter_init quality_label) L f inp out)))))"

definition cli_batch ::
  "('m, 'i, 'r) lib \<Rightarrow> fs \<Rightarrow> path list \<Rightarrow> path list \<Rightarrow> path option \<Rightarrow> string option \<Rightarrow>
   nat \<times> fs \<times> event list" where
  "cli_batch L f image_files pdf_files output q =
     (case click_paths f image_files of
        Inl msg \<Rightarrow> usage_error f msg
      | Inr images \<Rightarrow>
          (case click_paths f pdf_files of
             Inl msg \<Rightarrow> usage_error f msg
           | Inr pdfs \<Rightarrow>
               (case click_required output of
                  Inl msg \<Rightarrow> usage_error f msg
                | Inr out \<Rightarrow>
                    (case click_choice quality_choices ''high'' q of
                       Inl msg \<Rightarrow> usage_error f msg
                     | Inr quality_label \<Rightarrow> batch L f images pdfs out quality_label))))"

subsection \<open>What optimize does to one object\<close>

text \<open>
  All the entries of a document, page after page, which is the order of the two loops
  (lines 153 and 157); and what one pass of the loop body makes of the object an entry
  refers to.
\<close>

definition entries_of :: "pdf \<Rightarrow> (string \<times> nat) list" where
  "entries_of doc = concat (map page_xobjects (pages doc))"




subsection \<open>What a saved document keeps\<close>



subsection \<open>A concrete library and file system\<close>

text \<open>
  Stand-ins for the libraries, small enough to run. A PDF is a file that starts with
  \<^verbatim>\<open>%PDF\<close>. An image has one colour: it is its mode and the values of its bands, and an
  image file is the mode, a colon, one byte for each band, and padding. The filter
  \<^verbatim>\<open>/FlateDecode\<close> expands every star of the stored data to 2000 dots; as with pikepdf,
  \<^verbatim>\<open>read_bytes\<close> raises on a stream under \<^verbatim>\<open>/DCTDecode\<close> or \<^verbatim>\<open>/JPXDecode\<close>. A float is an
  exact fraction. They serve to run the model on concrete inputs.
\<close>

definition demo_image_open :: "bytes \<Rightarrow> exn + (string \<times> nat list)" where
  "demo_image_open b =
     (if prefix ''RGBA:'' b then Inr (''RGBA'', map of_char (take 4 (drop 5 b)))
      else if prefix ''RGB:'' b then Inr (''RGB'', map of_char (take 3 (drop 4 b)))
      else if prefix ''LA:'' b then Inr (''LA'', map of_char (take 2 (drop 3 b)))
      else if prefix ''P:'' b then Inr (''P'', map of_char (take 1 (drop 2 b)))
      else Inl (LibError ''cannot identify image file''))"

definition demo_inflate :: "bytes \<Rightarrow> bytes" where
  "demo_inflate dat = concat (map (\<lambda>c. if c = CHR ''*'' then replicate 2000 (CHR ''.'') else [c]) dat)"

definition demo_read_bytes :: "pdict \<Rightarrow> bytes \<Rightarrow> exn + bytes" where
  "demo_read_bytes d dat =
     (case map_of d ''/Filter'' of
        None \<Rightarrow> Inr dat
      | Some v \<Rightarrow>
          (if v = PName ''/FlateDecode'' then Inr (demo_inflate dat)
           else Inl (LibError ''unfilterable stream'')))"

text \<open>
  Pasting: without a mask the source replaces the destination; with a mask each band is
  the source weighted by the mask and the destination by the rest. A grey image gives
  its one value to the three colours.
\<close>

definition demo_rgb :: "string \<times> nat list \<Rightarrow> nat list" where
  "demo_rgb img =
     (if fst img = ''LA'' \<or> fst img = ''L''
      then [hd (snd img), hd (snd img), hd (snd img)]
      else take 3 (snd img))"

definition demo_paste ::
  "string \<times> nat list \<Rightarrow> string \<times> nat list \<Rightarrow> (string \<times> nat list) option \<Rightarrow>
   exn + (string \<times> nat list)" where
  "demo_paste dst src alpha =
     (case alpha of
        None \<Rightarrow> Inr (fst dst, demo_rgb src)
      | Some m \<Rightarrow>
          Inr (fst dst,
               map2 (\<lambda>c d. (c * hd (snd m) + d * (255 - hd (snd m))) div 255)
                 (demo_rgb src) (snd dst)))"

definition demo_digit :: "nat \<Rightarrow> char" where
  "demo_digit n = ''0123456789'' ! n"

fun demo_str_nat :: "nat \<Rightarrow> string" where
  "demo_str_nat n =
     (if n < 10 then [demo_digit n] else demo_str_nat (n div 10) @ [demo_digit (n mod 10)])"

definition demo_format_2f :: "int \<times> int \<Rightarrow> string" where
  "demo_format_2f x =
     (case x of (a, b) \<Rightarrow>
        (if (200 * a + b) div (2 * b) < 0 then ''-'' else []) @
        demo_str_nat (nat \<bar>(200 * a + b) div (2 * b)\<bar> div 100) @ ''.'' @
        [demo_digit (nat \<bar>(200 * a + b) div (2 * b)\<bar> mod 100 div 10),
         demo_digit (nat \<bar>(200 * a + b) div (2 * b)\<bar> mod 10)])"

text \<open>
  A document of two pages. \<^verbatim>\<open>/Im0\<close> is a large RGBA image stored in ten bytes, \<^verbatim>\<open>/Im1\<close> a
  JPEG, \<^verbatim>\<open>/Fm0\<close> a form, \<^verbatim>\<open>/Im2\<close> a small image, \<^verbatim>\<open>/Im3\<close>, on the second page, a large grey
  image that is fully transparent; object 5 is the content stream of the first page.
\<close>

definition demo_doc :: pdf where
  "demo_doc =
     \<lparr>pages =
        [\<lparr>resources =
            Some \<lparr>xobject = Some [(''/Im0'', 1), (''/Im1'', 2), (''/Fm0'', 3), (''/Im2'', 4)],
                  res_entries = []\<rparr>,
          page_entries = [(''/Contents'', PRef 5)]\<rparr>,
         \<lparr>resources = Some \<lparr>xobject = Some [(''/Im3'', 6)], res_entries = []\<rparr>,
          page_entries = []\<rparr>],
      objects =
        [(1, PStream [(''/Subtype'', PName ''/Image''), (''/Filter'', PName ''/FlateDecode''),
                      (''/Width'', PVal ''640'')]
                     (''RGBA:'' @ [CHR 0x0A, CHR 0x14, CHR 0x1E, CHR 0xFF] @ ''*'')),
         (2, PStream [(''/Subtype'', PName ''/Image''), (''/Filter'', PName ''/DCTDecode'')]
                     (''JFIF'' @ replicate 3000 (CHR ''?''))),
         (3, PStream [(''/Subtype'', PName ''/Form'')] ''q Q''),
         (4, PStream [(''/Subtype'', PName ''/Image'')] ''RGB:abc''),
         (5, PStream [] (''BT '' @ replicate 2000 (CHR ''.'') @ '' ET'')),
         (6, PStream [(''/Subtype'', PName ''/Image''), (''/Filter'', PName ''/FlateDecode'')]
                     (''LA:'' @ [CHR 0x00, CHR 0x00] @ ''*''))],
      trailer = []\<rparr>"

text \<open>The same document when \<^verbatim>\<open>pdf.save\<close> is called, at the quality of the high preset.\<close>

definition demo_doc_optimized :: pdf where
  "demo_doc_optimized =
     demo_doc\<lparr>objects :=
        [(6, PStream [(''/Filter'', PName ''/DCTDecode''), (''/Subtype'', PName ''/Image'')]
                     (''JPEG:'' @ map char_of [95, 0, 0, 0 :: nat])),
         (1, PStream [(''/Filter'', PName ''/DCTDecode''), (''/Subtype'', PName ''/Image''),
                      (''/Width'', PVal ''640'')]
                     (''JPEG:'' @ map char_of [95, 10, 20, 30 :: nat])),
         (2, PStream [(''/Subtype'', PName ''/Image''), (''/Filter'', PName ''/DCTDecode'')]
                     (''JFIF'' @ replicate 3000 (CHR ''?''))),
         (3, PStream [(''/Subtype'', PName ''/Form'')] ''q Q''),
         (4, PStream [(''/Subtype'', PName ''/Image'')] ''RGB:abc''),
         (5, PStream [] (''BT '' @ replicate 2000 (CHR ''.'') @ '' ET''))]\<rparr>"

text \<open>
  That document as the saved file opens: the streams that had no filter are now stored
  under \<^verbatim>\<open>/FlateDecode\<close>.
\<close>

definition demo_doc_saved :: pdf where
  "demo_doc_saved =
     demo_doc\<lparr>objects :=
        [(1, PStream [(''/Filter'', PName ''/DCTDecode''), (''/Subtype'', PName ''/Image''),
                      (''/Width'', PVal ''640'')]
                     (''JPEG:'' @ map char_of [95, 10, 20, 30 :: nat])),
         (2, PStream [(''/Subtype'', PName ''/Image''), (''/Filter'', PName ''/DCTDecode'')]
                     (''JFIF'' @ replicate 3000 (CHR ''?''))),
         (3, PStream [(''/Filter'', PName ''/FlateDecode''), (''/Subtype'', PName ''/Form'')] ''q Q''),
         (4, PStream [(''/Filter'', PName ''/FlateDecode''), (''/Subtype'', PName ''/Image'')]
                     ''RGB:abc''),
         (5, PStream [(''/Filter'', PName ''/FlateDecode'')] ''BT * ET''),
         (6, PStream [(''/Filter'', PName ''/DCTDecode''), (''/Subtype'', PName ''/Image'')]
                     (''JPEG:'' @ map char_of [95, 0, 0, 0 :: nat]))]\<rparr>"

definition demo_lib :: "(bytes list, string \<times> nat list, int \<times> int) lib" where
  "demo_lib =
     \<lparr>merger_new = [],
      merger_append = (\<lambda>m b. if prefix ''%PDF'' b then Inr (m @ [b])
                              else Inl (LibError ''EOF marker not found'')),
      merger_write = (\<lambda>m. WriteOk (''%PDF'' @ concat m)),
      image_open = demo_image_open,
      image_mode = fst,
      image_size = (\<lambda>img. (1, 1)),
      image_new = (\<lambda>mode size color. case color of (r, g, b) \<Rightarrow> Inr (mode, [r, g, b])),
      image_convert = (\<lambda>img mode. Inr (mode, [hd (snd img), hd (snd img), hd (snd img), 255])),
      image_split = (\<lambda>img. Inr (map (\<lambda>v. (''L'', [v])) (snd img))),
      image_paste = demo_paste,
      image_save_jpeg = (\<lambda>img q opt d. Inr (''JPEG:'' @ map char_of (q # snd img))),
      img2pdf_convert = (\<lambda>bs. Inr (''%PDF'' @ concat bs)),
      pikepdf_open = (\<lambda>b. if b = ''%PDF c'' then Inr demo_doc
                            else if b = ''%PDF optimized'' then Inr demo_doc_saved
                            else Inl (LibError ''not a PDF'')),
      stream_read_bytes = demo_read_bytes,
      pikepdf_save = (\<lambda>doc compress mode.
                        if doc = demo_doc_optimized \<and> compress then WriteOk ''%PDF optimized''
                        else WriteOk ''%PDF''),
      mkdtemp = (\<lambda>f. Inr ''/tmp/tmpq1w2e3''),
      py_repr = (\<lambda>k. [CHR 0x27] @ k @ [CHR 0x27]),
      float_div = (\<lambda>a b. (a, b)),
      float_mul = (\<lambda>x k. (fst x * k, snd x)),
      format_2f = demo_format_2f\<rparr>"

text \<open>The same library, with a merger that fails while it writes its output.\<close>

definition failing_write_lib :: "(bytes list, string \<times> nat list, int \<times> int) lib" where
  "failing_write_lib =
     demo_lib\<lparr>merger_write := (\<lambda>m. WriteFailed (Some ''%PDF'') (LibError ''write failed''))\<rparr>"

definition demo_fs :: fs where
  "demo_fs =
     \<lparr>entries = [(''a.pdf'', File ''junk''), (''c.pdf'', File ''%PDF c''),
                 (''i.png'', File ''RGBA i'')],
      denied = []\<rparr>"

section \<open>Properties\<close>

subsection \<open>Quality presets and the command line\<close>

lemma click_choice_rejects:
  "q \<notin> set choices \<Longrightarrow> click_choice choices d (Some q) = Inl (''Invalid value: '' @ q)"
  by (simp add: click_choice_def)

lemma current_settings_unknown:
  "q \<notin> {''high'', ''medium'', ''low''} \<Longrightarrow> current_settings (PDFConverter_init q) = Inl q"
  by (simp add: current_settings_def PDFConverter_init_def)

lemma find_missing_None: "list_all (exists f) ps \<Longrightarrow> find (\<lambda>p. \<not> exists f p) ps = None"
  by (induction ps) auto

lemma find_missing_Some:
  "\<not> list_all (exists f) ps \<Longrightarrow> \<exists>p. find (\<lambda>p. \<not> exists f p) ps = Some p"
  by (induction ps) auto

text \<open>
  Claim C3. A converter built with the label high, medium or low finds the preset
  (300, 95, true), (200, 85, true) or (150, 75, true) under its label; without a label
  the converter and the command line both take high; and a label outside the three makes
  \<^verbatim>\<open>convert\<close>, \<^verbatim>\<open>optimize\<close> and \<^verbatim>\<open>batch\<close> end in a usage error of click, with the file
  system as it was and no converter built.
\<close>

theorem presets_bound_and_labels_checked_by_cli:
  assumes "q \<notin> {''high'', ''medium'', ''low''}"
  shows "current_settings (PDFConverter_init ''high'') = Inr \<lparr>dpi = 300, quality = 95, optimize = True\<rparr>
       \<and> current_settings (PDFConverter_init ''medium'') = Inr \<lparr>dpi = 200, quality = 85, optimize = True\<rparr>
       \<and> current_settings (PDFConverter_init ''low'') = Inr \<lparr>dpi = 150, quality = 75, optimize = True\<rparr>
       \<and> PDFConverter_default = PDFConverter_init ''high''
       \<and> click_choice quality_choices ''high'' None = Inr ''high''
       \<and> (\<exists>msg. cli_convert L f image_files output (Some q) = usage_error f msg)
       \<and> (\<exists>msg. cli_optimize L f input_file output (Some q) = usage_error f msg)
       \<and> (\<exists>msg. cli_batch L f image_files pdf_files output (Some q) = usage_error f msg)"
proof -
  have rej: "click_choice quality_choices ''high'' (Some q) = Inl (''Invalid value: '' @ q)"
    using assms by (simp add: click_choice_def quality_choices_def)
  have presets: "current_settings (PDFConverter_init ''high'') = Inr \<lparr>dpi = 300, quality = 95, optimize = True\<rparr>"
    "current_settings (PDFConverter_init ''medium'') = Inr \<lparr>dpi = 200, quality = 85, optimize = True\<rparr>"
    "current_settings (PDFConverter_init ''low'') = Inr \<lparr>dpi = 150, quality = 75, optimize = True\<rparr>"
    by (simp_all add: current_settings_def PDFConverter_init_def)
  have conv: "\<exists>msg. cli_convert L f image_files output (Some q) = usage_error f msg"
    by (auto simp add: cli_convert_def rej split: sum.splits)
  have opt: "\<exists>msg. cli_optimize L f input_file output (Some q) = usage_error f msg"
    by (auto simp add: cli_optimize_def rej split: sum.splits option.splits)
  have bat: "\<exists>msg. cli_batch L f image_files pdf_files output (Some q) = usage_error f msg"
    by (auto simp add: cli_batch_def rej split: sum.splits)
  show ?thesis
    using presets conv opt bat
    by (simp add: PDFConverter_default_def click_choice_def)
qed

theorem presets_bound_and_labels_checked_by_cli_witness:
  "''ultra'' \<notin> {''high'', ''medium'', ''low''}
   \<and> current_settings (PDFConverter_init ''low'') = Inr \<lparr>dpi = 150, quality = 75, optimize = True\<rparr>
   \<and> cli_convert demo_lib demo_fs [''i.png''] (Some ''out.pdf'') (Some ''ultra'')
       = usage_error demo_fs ''Invalid value: ultra''"
proof -
  have h: "''ultra'' \<notin> {''high'', ''medium'', ''low''}" by simp
  have e: "cli_convert demo_lib demo_fs [''i.png''] (Some ''out.pdf'') (Some ''ultra'')
       = usage_error demo_fs ''Invalid value: ultra''"
    by (simp add: cli_convert_def click_paths_def click_required_def click_choice_def
        quality_choices_def demo_fs_def exists_def)
  from presets_bound_and_labels_checked_by_cli [OF h, of demo_lib demo_fs "[''i.png'']" "Some ''out.pdf''"]
  show ?thesis using h e by simp
qed

text \<open>
  Claim C9. Two converters that differ only in their quality label, whatever the labels
  are, merge the same input list to the same result: the same boolean, the same file
  system and the same output.
\<close>

theorem merge_ignores_quality:
  "merge_pdfs (PDFConverter_init q1) L f input_files output_file
   = merge_pdfs (PDFConverter_init q2) L f input_files output_file"
  by (simp add: merge_pdfs_def)

subsection \<open>A label outside the presets\<close>

text \<open>
  Claim C10. A label outside the three presets does not stop the construction of a
  converter. With inputs that exist, image-to-PDF and optimize fail at the lookup of the
  preset: the \<^verbatim>\<open>KeyError\<close> is caught, the method prints its error line, which ends in the
  \<^verbatim>\<open>repr\<close> of the label, and returns false, and the file system is untouched. With a
  missing input, and always for merge, the converter behaves as one built with a valid
  label.
\<close>

theorem unknown_label_fails_at_lookup:
  assumes "q \<notin> {''high'', ''medium'', ''low''}"
  shows "self_quality (PDFConverter_init q) = q
       \<and> (list_all (exists f) image_files \<longrightarrow>
            image_to_pdf (PDFConverter_init q) L f image_files output_file
            = (False, f, [Err (''Error converting images to PDF: '' @ py_repr L q)]))
       \<and> (exists f input_file \<longrightarrow>
            optimize_pdf (PDFConverter_init q) L f input_file output_file
            = (False, f, [Out (''Optimizing: '' @ input_file),
                          Err (''Error optimizing PDF: '' @ py_repr L q)]))
       \<and> (\<not> list_all (exists f) image_files \<longrightarrow>
            image_to_pdf (PDFConverter_init q) L f image_files output_file
            = image_to_pdf (PDFConverter_init ''high'') L f image_files output_file)
       \<and> (\<not> exists f input_file \<longrightarrow>
            optimize_pdf (PDFConverter_init q) L f input_file output_file
            = optimize_pdf (PDFConverter_init ''high'') L f input_file output_file)
       \<and> merge_pdfs (PDFConverter_init q) L f input_files output_file
            = merge_pdfs (PDFConverter_init ''high'') L f input_files output_file"
proof -
  note ks = current_settings_unknown [OF assms]
  have a: "self_quality (PDFConverter_init q) = q" by (simp add: PDFConverter_init_def)
  have b: "list_all (exists f) image_files \<longrightarrow>
            image_to_pdf (PDFConverter_init q) L f image_files output_file
            = (False, f, [Err (''Error converting images to PDF: '' @ py_repr L q)])"
    by (simp add: image_to_pdf_def find_missing_None ks convert_failed_def)
  have c: "exists f input_file \<longrightarrow>
            optimize_pdf (PDFConverter_init q) L f input_file output_file
            = (False, f, [Out (''Optimizing: '' @ input_file),
                          Err (''Error optimizing PDF: '' @ py_repr L q)])"
    by (simp add: optimize_pdf_def ks optimize_failed_def)
  have d: "\<not> list_all (exists f) image_files \<longrightarrow>
            image_to_pdf (PDFConverter_init q) L f image_files output_file
            = image_to_pdf (PDFConverter_init ''high'') L f image_files output_file"
  proof
    assume "\<not> list_all (exists f) image_files"
    then obtain p where "find (\<lambda>p. \<not> exists f p) image_files = Some p"
      using find_missing_Some by blast
    then show "image_to_pdf (PDFConverter_init q) L f image_files output_file
            = image_to_pdf (PDFConverter_init ''high'') L f image_files output_file"
      by (simp add: image_to_pdf_def)
  qed
  have e: "\<not> exists f input_file \<longrightarrow>
            optimize_pdf (PDFConverter_init q) L f input_file output_file
            = optimize_pdf (PDFConverter_init ''high'') L f input_file output_file"
    by (simp add: optimize_pdf_def)
  have g: "merge_pdfs (PDFConverter_init q) L f input_files output_file
            = merge_pdfs (PDFConverter_init ''high'') L f input_files output_file"
    by (simp add: merge_pdfs_def)
  show ?thesis using a b c d e g by blast
qed

theorem unknown_label_fails_at_lookup_witness:
  "''ultra'' \<notin> {''high'', ''medium'', ''low''}
   \<and> list_all (exists demo_fs) [''i.png'']
   \<and> exists demo_fs ''c.pdf''
   \<and> image_to_pdf (PDFConverter_init ''ultra'') demo_lib demo_fs [''i.png''] ''out.pdf''
       = (False, demo_fs, [Err (''Error converting images to PDF: '' @ py_repr demo_lib ''ultra'')])
   \<and> optimize_pdf (PDFConverter_init ''ultra'') demo_lib demo_fs ''c.pdf'' ''out.pdf''
       = (False, demo_fs, [Out ''Optimizing: c.pdf'',
                           Err (''Error optimizing PDF: '' @ py_repr demo_lib ''ultra'')])"
proof -
  have h: "''ultra'' \<notin> {''high'', ''medium'', ''low''}" by simp
  have i: "list_all (exists demo_fs) [''i.png'']" by (simp add: exists_def demo_fs_def)
  have c: "exists demo_fs ''c.pdf''" by (simp add: exists_def demo_fs_def)
  from unknown_label_fails_at_lookup [OF h, of demo_fs "[''i.png'']" demo_lib "''out.pdf''" "''c.pdf''"]
  show ?thesis using h i c by simp
qed

subsection \<open>Missing input files\<close>

lemma merge_loop_append:
  "merge_loop L f (xs @ ys) m log =
     (case merge_loop L f xs m log of
        (Next m', log') \<Rightarrow> merge_loop L f ys m' log'
      | (Ret b, log') \<Rightarrow> (Ret b, log')
      | (Exc e, log') \<Rightarrow> (Exc e, log'))"
  by (induction xs arbitrary: m log) (auto split: sum.splits)

lemma merge_loop_all_exist:
  "list_all (exists f) xs \<Longrightarrow>
   (\<exists>m' log'. merge_loop L f xs m log = (Next m', log') \<and> errors log' = errors log)
   \<or> (\<exists>e log'. merge_loop L f xs m log = (Exc e, log') \<and> errors log' = errors log)"
proof (induction xs arbitrary: m log)
  case Nil
  then show ?case by simp
next
  case (Cons x xs)
  then have x: "exists f x" and xs: "list_all (exists f) xs" by simp_all
  show ?case
  proof (cases "append_file L f m x")
    case (Inl e)
    then show ?thesis using x by (simp add: errors_def)
  next
    case (Inr m')
    from Cons.IH [OF xs, of m' "log @ [Out (''Adding: '' @ x)]"] Inr x
    show ?thesis by (simp add: errors_def)
  qed
qed

lemma first_missing:
  "p \<in> set files \<Longrightarrow> \<not> exists f p \<Longrightarrow>
   \<exists>q pre post. files = pre @ q # post \<and> list_all (exists f) pre \<and> \<not> exists f q
     \<and> find (\<lambda>x. \<not> exists f x) files = Some q"
proof (induction files)
  case Nil
  then show ?case by simp
next
  case (Cons x xs)
  show ?case
  proof (cases "exists f x")
    case False
    then have "x # xs = [] @ x # xs \<and> list_all (exists f) [] \<and> \<not> exists f x
        \<and> find (\<lambda>x. \<not> exists f x) (x # xs) = Some x" by simp
    then show ?thesis by blast
  next
    case True
    with Cons.prems have "p \<in> set xs" by auto
    from Cons.IH [OF this Cons.prems(2)] obtain q pre post where
      h: "xs = pre @ q # post" "list_all (exists f) pre" "\<not> exists f q"
         "find (\<lambda>x. \<not> exists f x) xs = Some q" by blast
    then have "x # xs = (x # pre) @ q # post \<and> list_all (exists f) (x # pre) \<and> \<not> exists f q
        \<and> find (\<lambda>x. \<not> exists f x) (x # xs) = Some q" using True by simp
    then show ?thesis by blast
  qed
qed

lemma merge_missing:
  assumes "list_all (exists f) pre" "\<not> exists f q"
  shows "(\<exists>m log0. merge_loop L f pre (merger_new L) [] = (Next m, log0) \<and> errors log0 = [] \<and>
            merge_pdfs self L f (pre @ q # post) out
            = (False, f, log0 @ [Err (''Error: File not found: '' @ q)]))
       \<or> (\<exists>e log0. merge_loop L f pre (merger_new L) [] = (Exc e, log0) \<and> errors log0 = [] \<and>
            merge_pdfs self L f (pre @ q # post) out
            = (False, f, log0 @ [Err (''Error merging PDFs: '' @ str_exn e)]))"
  using merge_loop_all_exist [OF assms(1), of L "merger_new L" "[]"] assms(2)
  by (auto simp add: merge_pdfs_def merge_loop_append errors_def)

text \<open>
  Claim C4, as amended. When the input list holds a path that does not exist, let \<open>q\<close> be
  the first such path and \<open>pre\<close> the paths before it. Image-to-PDF returns false with the
  one line that names \<open>q\<close>; optimize on a missing path returns false with the one line
  that names it; merge returns false, and its only error line names \<open>q\<close> when the library
  appended every file of \<open>pre\<close>, and is the library's error on a file of \<open>pre\<close> otherwise.
  In each case the file system is left as it was: no output file is written.
\<close>

theorem missing_input_fails_without_output:
  assumes "p \<in> set files" and "\<not> exists f p"
  shows "\<exists>q pre post. files = pre @ q # post \<and> list_all (exists f) pre \<and> \<not> exists f q
       \<and> image_to_pdf self L f files out = (False, f, [Err (''Error: File not found: '' @ q)])
       \<and> optimize_pdf self L f p out = (False, f, [Err (''Error: File not found: '' @ p)])
       \<and> ((\<exists>m log0. merge_loop L f pre (merger_new L) [] = (Next m, log0) \<and> errors log0 = [] \<and>
              merge_pdfs self L f files out
              = (False, f, log0 @ [Err (''Error: File not found: '' @ q)]))
          \<or> (\<exists>e log0. merge_loop L f pre (merger_new L) [] = (Exc e, log0) \<and> errors log0 = [] \<and>
              merge_pdfs self L f files out
              = (False, f, log0 @ [Err (''Error merging PDFs: '' @ str_exn e)])))"
proof -
  from first_missing [OF assms] obtain q pre post where
    h: "files = pre @ q # post" "list_all (exists f) pre" "\<not> exists f q"
       "find (\<lambda>x. \<not> exists f x) files = Some q" by blast
  have i: "image_to_pdf self L f files out = (False, f, [Err (''Error: File not found: '' @ q)])"
    using h(4) by (simp add: image_to_pdf_def)
  have ob: "optimize_pdf self L f p out = (False, f, [Err (''Error: File not found: '' @ p)])"
    using assms(2) by (simp add: optimize_pdf_def)
  from merge_missing [OF h(2) h(3), of L self post out] h(1) i ob h(2) h(3)
  show ?thesis by blast
qed

theorem missing_input_fails_without_output_witness:
  "''b.pdf'' \<in> set [''c.pdf'', ''b.pdf''] \<and> \<not> exists demo_fs ''b.pdf''
   \<and> image_to_pdf PDFConverter_default demo_lib demo_fs [''c.pdf'', ''b.pdf''] ''out.pdf''
      = (False, demo_fs, [Err ''Error: File not found: b.pdf''])
   \<and> merge_pdfs PDFConverter_default demo_lib demo_fs [''c.pdf'', ''b.pdf''] ''out.pdf''
      = (False, demo_fs, [Out ''Adding: c.pdf'', Err ''Error: File not found: b.pdf''])
   \<and> optimize_pdf PDFConverter_default demo_lib demo_fs ''b.pdf'' ''out.pdf''
      = (False, demo_fs, [Err ''Error: File not found: b.pdf''])"
proof -
  have a: "''b.pdf'' \<in> set [''c.pdf'', ''b.pdf'']" by simp
  have b: "\<not> exists demo_fs ''b.pdf''" by (simp add: exists_def demo_fs_def)
  have c: "exists demo_fs ''c.pdf''" by (simp add: exists_def demo_fs_def)
  have m: "merge_pdfs PDFConverter_default demo_lib demo_fs [''c.pdf'', ''b.pdf''] ''out.pdf''
      = (False, demo_fs, [Out ''Adding: c.pdf'', Err ''Error: File not found: b.pdf''])"
    using b c by (simp add: merge_pdfs_def append_file_def read_file_def demo_fs_def demo_lib_def)
  from missing_input_fails_without_output [OF a b, of PDFConverter_default demo_lib "''out.pdf''"]
  obtain q pre post where
    h: "[''c.pdf'', ''b.pdf''] = pre @ q # post" "list_all (exists demo_fs) pre" "\<not> exists demo_fs q"
       "image_to_pdf PDFConverter_default demo_lib demo_fs [''c.pdf'', ''b.pdf''] ''out.pdf''
        = (False, demo_fs, [Err (''Error: File not found: '' @ q)])"
       "optimize_pdf PDFConverter_default demo_lib demo_fs ''b.pdf'' ''out.pdf''
        = (False, demo_fs, [Err (''Error: File not found: '' @ ''b.pdf'')])"
    by blast
  from h(1) h(3) c have "q \<in> set [''c.pdf'', ''b.pdf'']" by (metis in_set_conv_decomp)
  with h(3) c have "q = ''b.pdf''" by auto
  with h a b m show ?thesis by simp
qed

text \<open>
  Claim C4 as stated fails for merge: \<^verbatim>\<open>a.pdf\<close> exists and is no PDF, \<^verbatim>\<open>b.pdf\<close> does not
  exist; the loop raises on \<^verbatim>\<open>a.pdf\<close> before it looks at \<^verbatim>\<open>b.pdf\<close>, and the error line
  does not name the missing path.
\<close>

theorem merge_error_may_not_name_missing_path:
  "''b.pdf'' \<in> set [''a.pdf'', ''b.pdf''] \<and> \<not> exists demo_fs ''b.pdf''
   \<and> merge_pdfs PDFConverter_default demo_lib demo_fs [''a.pdf'', ''b.pdf''] ''out.pdf''
      = (False, demo_fs, [Out ''Adding: a.pdf'', Err ''Error merging PDFs: EOF marker not found''])
   \<and> \<not> sublist ''b.pdf'' ''Error merging PDFs: EOF marker not found''"
  by (simp add: merge_pdfs_def demo_lib_def demo_fs_def exists_def append_file_def read_file_def
      sublist_Cons_right)

subsection \<open>Batch: the temporary directory\<close>

lemma batch_no_inputs:
  "mkdtemp L f = Inr temp_dir \<Longrightarrow>
   batch L f [] [] output quality_label
   = (1, put f temp_dir Dir, [Err ''Error: At least one image file or PDF file must be provided''])"
  by (simp add: batch_def)

lemma exists_put: "exists (put f p n) p"
  by (simp add: exists_def put_def)

text \<open>
  Claim C1 does not hold of the code. \<^verbatim>\<open>batch\<close> makes its temporary directory (line 295)
  before it checks that there is an input, and that check exits (line 300) outside the
  \<^verbatim>\<open>try\<close> whose \<^verbatim>\<open>finally\<close> block removes the directory: with no image and no PDF the run
  ends with exit code 1 and the directory still there. In the second run the merger
  raises after it has opened its output: \<^verbatim>\<open>temp_merged.pdf\<close> exists but was never added to
  \<open>temp_files\<close>, so it stays, and with it the directory, which is not empty.
\<close>

theorem batch_without_inputs_leaves_temp_dir:
  "batch demo_lib demo_fs [] [] ''out.pdf'' ''high''
   = (1, put demo_fs ''/tmp/tmpq1w2e3'' Dir,
      [Err ''Error: At least one image file or PDF file must be provided''])
   \<and> exists (put demo_fs ''/tmp/tmpq1w2e3'' Dir) ''/tmp/tmpq1w2e3''
   \<and> batch failing_write_lib demo_fs [] [''c.pdf''] ''out.pdf'' ''high''
     = (1, \<lparr>entries = [(''/tmp/tmpq1w2e3/temp_merged.pdf'', File ''%PDF''),
                        (''/tmp/tmpq1w2e3'', Dir), (''a.pdf'', File ''junk''),
                        (''c.pdf'', File ''%PDF c''), (''i.png'', File ''RGBA i'')],
            denied = []\<rparr>,
        [Out ''Adding: c.pdf'', Err ''Error merging PDFs: write failed''])"
proof -
  have m: "mkdtemp demo_lib demo_fs = Inr ''/tmp/tmpq1w2e3''" by (simp add: demo_lib_def)
  have a: "batch demo_lib demo_fs [] [] ''out.pdf'' ''high''
   = (1, put demo_fs ''/tmp/tmpq1w2e3'' Dir,
      [Err ''Error: At least one image file or PDF file must be provided''])"
    using batch_no_inputs [OF m] .
  have l: "mkdtemp failing_write_lib demo_fs = Inr ''/tmp/tmpq1w2e3''"
    "merger_new failing_write_lib = []"
    "\<And>m. merger_append failing_write_lib m ''%PDF c'' = Inr (m @ [''%PDF c''])"
    "\<And>m. merger_write failing_write_lib m = WriteFailed (Some ''%PDF'') (LibError ''write failed'')"
    by (simp_all add: failing_write_lib_def demo_lib_def)
  have mg: "merge_pdfs (PDFConverter_init ''high'') failing_write_lib
              (put demo_fs ''/tmp/tmpq1w2e3'' Dir) [''c.pdf''] (join ''/tmp/tmpq1w2e3'' ''temp_merged.pdf'')
            = (False,
               \<lparr>entries = [(''/tmp/tmpq1w2e3/temp_merged.pdf'', File ''%PDF''),
                        (''/tmp/tmpq1w2e3'', Dir), (''a.pdf'', File ''junk''),
                        (''c.pdf'', File ''%PDF c''), (''i.png'', File ''RGBA i'')],
                 denied = []\<rparr>,
               [Out ''Adding: c.pdf'', Err ''Error merging PDFs: write failed''])"
    by (simp add: merge_pdfs_def l append_file_def read_file_def exists_def put_def demo_fs_def
        write_out_def open_wb_def join_def parent_exists_def dirname_def)
  have b: "batch failing_write_lib demo_fs [] [''c.pdf''] ''out.pdf'' ''high''
     = (1, \<lparr>entries = [(''/tmp/tmpq1w2e3/temp_merged.pdf'', File ''%PDF''),
                        (''/tmp/tmpq1w2e3'', Dir), (''a.pdf'', File ''junk''),
                        (''c.pdf'', File ''%PDF c''), (''i.png'', File ''RGBA i'')],
            denied = []\<rparr>,
        [Out ''Adding: c.pdf'', Err ''Error merging PDFs: write failed''])"
    by (simp add: batch_def l(1) batch_try_def mg)
       (simp add: cleanup_def os_rmdir_def has_children_def)
  show ?thesis using a b exists_put by simp
qed

text \<open>
  Claim C2 does not hold of the code either, by the same order of statements: the
  \<^verbatim>\<open>batch\<close> subcommand with no image and no \<^verbatim>\<open>--pdf\<close> exits with code 1 and prints its
  diagnostic, and the file system has gained the temporary directory.
\<close>

theorem batch_without_inputs_creates_directory:
  "cli_batch demo_lib demo_fs [] [] (Some ''out.pdf'') None
   = (1, put demo_fs ''/tmp/tmpq1w2e3'' Dir,
      [Err ''Error: At least one image file or PDF file must be provided''])
   \<and> \<not> exists demo_fs ''/tmp/tmpq1w2e3''
   \<and> exists (put demo_fs ''/tmp/tmpq1w2e3'' Dir) ''/tmp/tmpq1w2e3''
   \<and> entries (put demo_fs ''/tmp/tmpq1w2e3'' Dir) = (''/tmp/tmpq1w2e3'', Dir) # entries demo_fs"
proof -
  have m: "mkdtemp demo_lib demo_fs = Inr ''/tmp/tmpq1w2e3''" by (simp add: demo_lib_def)
  have a: "cli_batch demo_lib demo_fs [] [] (Some ''out.pdf'') None
           = batch demo_lib demo_fs [] [] ''out.pdf'' ''high''"
    by (simp add: cli_batch_def click_paths_def click_required_def click_choice_def)
  have n: "\<not> exists demo_fs ''/tmp/tmpq1w2e3''" by (simp add: exists_def demo_fs_def)
  have e: "entries (put demo_fs ''/tmp/tmpq1w2e3'' Dir) = (''/tmp/tmpq1w2e3'', Dir) # entries demo_fs"
    by (simp add: put_def demo_fs_def)
  show ?thesis using a batch_no_inputs [OF m] n e exists_put by simp
qed

subsection \<open>Optimize: the loops over pages and entries\<close>

lemma map_of_filter_other:
  "q \<noteq> r \<Longrightarrow> map_of (filter (\<lambda>(k, _). k \<noteq> r) st) q = map_of st q"
  by (induction st) auto



lemma optimize_xobjects_append:
  "optimize_xobjects L s (xs @ ys) st log
   = (case optimize_xobjects L s xs st log of (st', log') \<Rightarrow> optimize_xobjects L s ys st' log')"
  by (induction xs arbitrary: st log) (auto split: prod.splits)

lemma optimize_pages_entries:
  "optimize_pages L s pgs st log = optimize_xobjects L s (concat (map page_xobjects pgs)) st log"
  by (induction pgs arbitrary: st log) (auto simp add: optimize_xobjects_append split: prod.splits)

lemma optimize_document_entries:
  "optimize_document L s doc log
   = (case optimize_xobjects L s (entries_of doc) (objects doc) log of
        (st, log') \<Rightarrow> (doc\<lparr>objects := st\<rparr>, log'))"
  by (simp add: optimize_document_def optimize_pages_entries entries_of_def)




lemma funpow_fixed: "g x = x \<Longrightarrow> (g ^^ n) x = x"
  by (induction n) simp_all


subsection \<open>Optimize: the run as a whole\<close>

lemma read_after_put: "read_file (put f p (File b)) p = Inr b"
  by (simp add: read_file_def put_def)

lemma read_put_other: "q \<noteq> p \<Longrightarrow> read_file (put f p n) q = read_file f q"
  by (simp add: read_file_def put_def map_of_filter_other)

lemma open_wb_result: "open_wb f p = Inr f' \<Longrightarrow> f' = put f p (File [])"
  by (auto simp add: open_wb_def split: if_splits)

lemma write_out_ok:
  "write_out f p w = (None, f') \<Longrightarrow>
   \<exists>b. w = WriteOk b \<and> read_file f' p = Inr b \<and> (\<forall>q. q \<noteq> p \<longrightarrow> read_file f' q = read_file f q)"
  by (auto simp add: write_out_def read_after_put read_put_other
      split: wr.splits option.splits sum.splits dest!: open_wb_result)

lemma getsize_read: "read_file f p = Inr b \<Longrightarrow> getsize f p = Inr (length b)"
  by (auto simp add: read_file_def getsize_def split: option.splits node.splits)

lemma report_sizes_read:
  "read_file f input_file = Inr b \<Longrightarrow> read_file f output_file = Inr b' \<Longrightarrow>
   report_sizes L f input_file output_file log
   = (if b = [] then optimize_failed f log ZeroDivisionError
      else (True, f,
            log @
            [Out ''Successfully optimized PDF:'',
             Out (''  Original size: '' @ format_2f L (float_div L (int (length b)) 1024) @ '' KB''),
             Out (''  Optimized size: '' @ format_2f L (float_div L (int (length b')) 1024) @ '' KB''),
             Out (''  Reduction: '' @ format_2f L (reduction L (length b) (length b')) @ ''%'')]))"
  by (simp add: report_sizes_def getsize_read)

lemma optimize_pdf_opened:
  "exists f input_file \<Longrightarrow> current_settings self = Inr s \<Longrightarrow> read_file f input_file = Inr b \<Longrightarrow>
   pikepdf_open L b = Inr doc \<Longrightarrow>
   optimize_pdf self L f input_file output_file
   = (case optimize_document L s doc [Out (''Optimizing: '' @ input_file)] of
        (doc', log) \<Rightarrow>
          (case save_pdf L f doc' input_file output_file of
             (Some e, f') \<Rightarrow> optimize_failed f' log e
           | (None, f') \<Rightarrow> report_sizes L f' input_file output_file log))"
  by (simp add: optimize_pdf_def)

lemma optimize_pdf_success:
  assumes "optimize_pdf self L f input_file output_file = (True, f', log)"
  shows "\<exists>s b doc doc' log' out.
           exists f input_file \<and> current_settings self = Inr s \<and> read_file f input_file = Inr b
         \<and> pikepdf_open L b = Inr doc
         \<and> optimize_document L s doc [Out (''Optimizing: '' @ input_file)] = (doc', log')
         \<and> output_file \<noteq> input_file
         \<and> pikepdf_save L doc' True Generate = WriteOk out
         \<and> read_file f' output_file = Inr out \<and> read_file f' input_file = Inr b \<and> b \<noteq> []
         \<and> log = log' @
             [Out ''Successfully optimized PDF:'',
              Out (''  Original size: '' @ format_2f L (float_div L (int (length b)) 1024) @ '' KB''),
              Out (''  Optimized size: '' @ format_2f L (float_div L (int (length out)) 1024) @ '' KB''),
              Out (''  Reduction: '' @ format_2f L (reduction L (length b) (length out)) @ ''%'')]"
proof -
  from assms have ex: "exists f input_file"
    by (auto simp add: optimize_pdf_def split: if_splits)
  from assms ex obtain s where s: "current_settings self = Inr s"
    by (cases "current_settings self") (auto simp add: optimize_pdf_def optimize_failed_def)
  from assms ex s obtain b where b: "read_file f input_file = Inr b"
    by (cases "read_file f input_file") (auto simp add: optimize_pdf_def optimize_failed_def)
  from assms ex s b obtain doc where doc: "pikepdf_open L b = Inr doc"
    by (cases "pikepdf_open L b") (auto simp add: optimize_pdf_def optimize_failed_def)
  obtain doc' log' where od:
    "optimize_document L s doc [Out (''Optimizing: '' @ input_file)] = (doc', log')"
    by (cases "optimize_document L s doc [Out (''Optimizing: '' @ input_file)]")
  obtain eo f1 where w: "save_pdf L f doc' input_file output_file = (eo, f1)"
    by (cases "save_pdf L f doc' input_file output_file")
  note run = optimize_pdf_opened [OF ex s b doc, of output_file]
  from assms run od w have eo: "eo = None"
    by (cases eo) (auto simp add: optimize_failed_def)
  from w eo have ne: "output_file \<noteq> input_file"
    by (auto simp add: save_pdf_def split: if_splits)
  with w eo have wo: "write_out f output_file (pikepdf_save L doc' True Generate) = (None, f1)"
    by (simp add: save_pdf_def)
  from write_out_ok [OF wo] obtain out where
    out: "pikepdf_save L doc' True Generate = WriteOk out" "read_file f1 output_file = Inr out"
      "\<forall>q. q \<noteq> output_file \<longrightarrow> read_file f1 q = read_file f q" by blast
  from out(3) ne b have b1: "read_file f1 input_file = Inr b" by simp
  from assms run od w eo
  have rep: "report_sizes L f1 input_file output_file log' = (True, f', log)" by simp
  from rep have nz: "b \<noteq> []" and f1: "f' = f1" and lg: "log = log' @
             [Out ''Successfully optimized PDF:'',
              Out (''  Original size: '' @ format_2f L (float_div L (int (length b)) 1024) @ '' KB''),
              Out (''  Optimized size: '' @ format_2f L (float_div L (int (length out)) 1024) @ '' KB''),
              Out (''  Reduction: '' @ format_2f L (reduction L (length b) (length out)) @ ''%'')]"
    by (auto simp add: report_sizes_read [OF b1 out(2)] optimize_failed_def split: if_splits)
  from ex s b doc od ne out(1) out(2) b1 nz lg f1 show ?thesis by blast
qed

subsection \<open>Runs of the concrete library\<close>

lemma demo_lib_fields:
  "image_open demo_lib = demo_image_open"
  "image_mode demo_lib = fst"
  "image_size demo_lib img = (1, 1)"
  "image_new demo_lib mode sz (r, g, b) = Inr (mode, [r, g, b])"
  "image_convert demo_lib img mode = Inr (mode, [hd (snd img), hd (snd img), hd (snd img), 255])"
  "image_split demo_lib img = Inr (map (\<lambda>v. (''L'', [v])) (snd img))"
  "image_paste demo_lib = demo_paste"
  "image_save_jpeg demo_lib img q opt d = Inr (''JPEG:'' @ map char_of (q # snd img))"
  "stream_read_bytes demo_lib = demo_read_bytes"
  "py_repr demo_lib k = [CHR 0x27] @ k @ [CHR 0x27]"
  "float_div demo_lib a c = (a, c)"
  "float_mul demo_lib x n = (fst x * n, snd x)"
  "format_2f demo_lib = demo_format_2f"
  "mkdtemp demo_lib f = Inr ''/tmp/tmpq1w2e3''"
  by (simp_all add: demo_lib_def)

lemma demo_open_in: "pikepdf_open demo_lib ''%PDF c'' = Inr demo_doc"
  by (simp add: demo_lib_def)


lemma demo_save: "pikepdf_save demo_lib demo_doc_optimized True Generate = WriteOk ''%PDF optimized''"
  by (simp add: demo_lib_def)

lemma demo_high: "current_settings (PDFConverter_init ''high'') = Inr \<lparr>dpi = 300, quality = 95, optimize = True\<rparr>"
  by (simp add: current_settings_def PDFConverter_init_def)

lemma demo_entries:
  "entries_of demo_doc = [(''/Im0'', 1), (''/Im1'', 2), (''/Fm0'', 3), (''/Im2'', 4), (''/Im3'', 6)]"
  by (simp add: entries_of_def demo_doc_def page_xobjects_def)

lemma demo_to_rgb_RGBA: "to_rgb demo_lib (''RGBA'', [10, 20, 30, 255]) = Inr (''RGB'', [10, 20, 30])"
  by (simp add: to_rgb_def paste_on_def demo_lib_fields demo_paste_def demo_rgb_def)

lemma demo_to_rgb_LA: "to_rgb demo_lib (''LA'', [0, 0]) = Inr (''RGB'', [0, 0, 0])"
  by (simp add: to_rgb_def paste_on_def demo_lib_fields demo_paste_def demo_rgb_def)

lemma demo_optimize_document:
  "optimize_document demo_lib \<lparr>dpi = 300, quality = 95, optimize = True\<rparr> demo_doc log
   = (demo_doc_optimized,
      log @ [Err ''Warning: Could not optimize image /Im1: unfilterable stream''])"
  by (simp add: optimize_document_entries demo_entries)
     (simp add: demo_doc_optimized_def demo_doc_def optimize_xobject_def deref_def is_image_def
        recompress_def demo_lib_fields demo_read_bytes_def demo_inflate_def demo_image_open_def
        demo_to_rgb_RGBA demo_to_rgb_LA assign_def stream_write_def warning_def)

lemma demo_optimize_pdf:
  "optimize_pdf (PDFConverter_init ''high'') demo_lib demo_fs ''c.pdf'' ''out.pdf''
   = (True, put (put demo_fs ''out.pdf'' (File [])) ''out.pdf'' (File ''%PDF optimized''),
      [Out ''Optimizing: c.pdf'',
       Err ''Warning: Could not optimize image /Im1: unfilterable stream'',
       Out ''Successfully optimized PDF:'', Out ''  Original size: 0.01 KB'',
       Out ''  Optimized size: 0.01 KB'', Out ''  Reduction: -133.33%''])"
proof -
  have ex: "exists demo_fs ''c.pdf''" by (simp add: exists_def demo_fs_def)
  have rd: "read_file demo_fs ''c.pdf'' = Inr ''%PDF c''" by (simp add: read_file_def demo_fs_def)
  have sv: "save_pdf demo_lib demo_fs demo_doc_optimized ''c.pdf'' ''out.pdf''
            = (None, put (put demo_fs ''out.pdf'' (File [])) ''out.pdf'' (File ''%PDF optimized''))"
    by (simp add: save_pdf_def demo_save write_out_def open_wb_def parent_exists_def demo_fs_def)
  have r1: "read_file (put (put demo_fs ''out.pdf'' (File [])) ''out.pdf'' (File ''%PDF optimized''))
              ''c.pdf'' = Inr ''%PDF c''"
    by (simp add: read_put_other rd)
  show ?thesis
    by (simp add: optimize_pdf_opened [OF ex demo_high rd demo_open_in] demo_optimize_document sv
        report_sizes_read [OF r1 read_after_put] reduction_def demo_lib_fields
        demo_format_2f_def demo_digit_def)
qed

subsection \<open>Optimize: the size report\<close>

text \<open>
  Claim C6, as amended. When optimize succeeds, the input file is as it was, and the last
  four lines printed are the heading and the two sizes and the reduction, each formatted
  with two decimals. The reduction is the float product by 100 of the float quotient of
  the integer difference of the byte sizes of the input and the output file by the size
  of the input file; the difference is not clamped, and the input is not empty.
\<close>

theorem reduction_is_computed_from_file_sizes:
  assumes "optimize_pdf self L f input_file output_file = (True, f', log)"
  shows "\<exists>b out log'.
           read_file f input_file = Inr b \<and> read_file f' input_file = Inr b
         \<and> read_file f' output_file = Inr out \<and> b \<noteq> []
         \<and> log = log' @
             [Out ''Successfully optimized PDF:'',
              Out (''  Original size: '' @ format_2f L (float_div L (int (length b)) 1024) @ '' KB''),
              Out (''  Optimized size: '' @ format_2f L (float_div L (int (length out)) 1024) @ '' KB''),
              Out (''  Reduction: '' @
                   format_2f L
                     (float_mul L (float_div L (int (length b) - int (length out)) (int (length b)))
                        100) @ ''%'')]"
  using optimize_pdf_success [OF assms] unfolding reduction_def by blast

theorem reduction_is_computed_from_file_sizes_witness:
  "optimize_pdf (PDFConverter_init ''high'') demo_lib demo_fs ''c.pdf'' ''out.pdf''
   = (True, put (put demo_fs ''out.pdf'' (File [])) ''out.pdf'' (File ''%PDF optimized''),
      [Out ''Optimizing: c.pdf'',
       Err ''Warning: Could not optimize image /Im1: unfilterable stream'',
       Out ''Successfully optimized PDF:'', Out ''  Original size: 0.01 KB'',
       Out ''  Optimized size: 0.01 KB'', Out ''  Reduction: -133.33%''])
   \<and> (\<exists>b out. read_file demo_fs ''c.pdf'' = Inr b
         \<and> read_file (put (put demo_fs ''out.pdf'' (File [])) ''out.pdf'' (File ''%PDF optimized''))
              ''out.pdf'' = Inr out
         \<and> ''  Reduction: -133.33%''
           = ''  Reduction: '' @
             format_2f demo_lib
               (float_mul demo_lib
                  (float_div demo_lib (int (length b) - int (length out)) (int (length b))) 100)
             @ ''%'')"
proof -
  from reduction_is_computed_from_file_sizes [OF demo_optimize_pdf]
  obtain b out log' where
    h: "read_file demo_fs ''c.pdf'' = Inr b"
       "read_file (put (put demo_fs ''out.pdf'' (File [])) ''out.pdf'' (File ''%PDF optimized''))
          ''out.pdf'' = Inr out"
       "[Out ''Optimizing: c.pdf'',
         Err ''Warning: Could not optimize image /Im1: unfilterable stream'',
         Out ''Successfully optimized PDF:'', Out ''  Original size: 0.01 KB'',
         Out ''  Optimized size: 0.01 KB'', Out ''  Reduction: -133.33%'']
        = log' @
             [Out ''Successfully optimized PDF:'',
              Out (''  Original size: '' @ format_2f demo_lib (float_div demo_lib (int (length b)) 1024) @ '' KB''),
              Out (''  Optimized size: '' @ format_2f demo_lib (float_div demo_lib (int (length out)) 1024) @ '' KB''),
              Out (''  Reduction: '' @
                   format_2f demo_lib
                     (float_mul demo_lib (float_div demo_lib (int (length b) - int (length out)) (int (length b)))
                        100) @ ''%'')]"
    by blast
  from h(3) have "last [Out ''Optimizing: c.pdf'',
         Err ''Warning: Could not optimize image /Im1: unfilterable stream'',
         Out ''Successfully optimized PDF:'', Out ''  Original size: 0.01 KB'',
         Out ''  Optimized size: 0.01 KB'', Out ''  Reduction: -133.33%'']
       = Out (''  Reduction: '' @
                   format_2f demo_lib
                     (float_mul demo_lib (float_div demo_lib (int (length b) - int (length out)) (int (length b)))
                        100) @ ''%'')"
    by (metis last_snoc append_assoc append_Cons append_Nil)
  then have "''  Reduction: -133.33%''
           = ''  Reduction: '' @
             format_2f demo_lib
               (float_mul demo_lib
                  (float_div demo_lib (int (length b) - int (length out)) (int (length b))) 100)
             @ ''%''"
    by simp
  with h(1) h(2) demo_optimize_pdf show ?thesis by blast
qed

text \<open>
  Claim C6 as stated has the exact value reported. With exact fractions for floats, a
  6-byte input and a 14-byte output give the reduction -800/6, and the line printed is
  \<^verbatim>\<open>-133.33%\<close>: negative, so not clamped, but rounded to two decimals, and -800/6 is not
  -133.33.
\<close>

theorem reduction_is_printed_with_two_decimals:
  "optimize_pdf (PDFConverter_init ''high'') demo_lib demo_fs ''c.pdf'' ''out.pdf''
   = (True, put (put demo_fs ''out.pdf'' (File [])) ''out.pdf'' (File ''%PDF optimized''),
      [Out ''Optimizing: c.pdf'',
       Err ''Warning: Could not optimize image /Im1: unfilterable stream'',
       Out ''Successfully optimized PDF:'', Out ''  Original size: 0.01 KB'',
       Out ''  Optimized size: 0.01 KB'', Out ''  Reduction: -133.33%''])
   \<and> length ''%PDF c'' = 6 \<and> length ''%PDF optimized'' = 14
   \<and> reduction demo_lib 6 14 = (- 800, 6)
   \<and> (- 800 :: int) * 100 \<noteq> - 13333 * 6"
  by (simp add: demo_optimize_pdf reduction_def demo_lib_fields)

subsection \<open>Optimize: an image that cannot be processed\<close>




subsection \<open>Optimize: one pass over an object\<close>















text \<open>
  An image of mode \<^verbatim>\<open>LA\<close> has two bands, so the test \<^verbatim>\<open>len(img.split()) > 3\<close> fails and the
  image is pasted without its alpha band as mask.
\<close>

lemma to_rgb_LA:
  "image_mode L img = ''LA'' \<Longrightarrow>
   image_new L ''RGB'' (image_size L img) (255, 255, 255) = Inr white \<Longrightarrow>
   image_split L img = Inr bands \<Longrightarrow> length bands = 2 \<Longrightarrow>
   to_rgb L img = image_paste L white img None"
  by (simp add: to_rgb_def paste_on_def)


subsection \<open>Optimize: the size threshold and the re-encoding\<close>



lemma demo_saved_doc:
  "pikepdf_save demo_lib doc True Generate = WriteOk ''%PDF optimized'' \<Longrightarrow> doc = demo_doc_optimized"
  by (simp add: demo_lib_def split: if_splits)




subsection \<open>Optimize: what the output document keeps\<close>






end
